theory Spec2Isabelle
  imports Complex_Main
begin

section \<open>Speed estimation from two photographs (main.py)\<close>

text \<open>
  The program is Python. Its floats are modelled as \<^typ>\<open>real\<close> (exact arithmetic: no
  rounding, no NaN, no infinities), its unbounded integers as \<^typ>\<open>int\<close>, a raised
  exception as the left injection of a sum type. The camera, the EXIF reader and OpenCV are
  outside the repository; their calls are parameters of the model.
\<close>

subsection \<open>Errors\<close>

text \<open>
  The exceptions the source raises itself (\<open>ValueError\<close>), the one it catches by name
  (\<open>IndexError\<close>), and the failures of the collaborators (\<open>OSError\<close> for a file that
  cannot be opened, \<open>ExternalError\<close> for anything a library call raises).
\<close>

datatype error = ValueError | IndexError | OSError | ExternalError

subsection \<open>calculate_speed_in_kmps\<close>

text \<open>
  \<^verbatim>\<open>
  def calculate_speed_in_kmps(feature_distance, GSD, time_difference):
      if time_difference == 0:
          raise ValueError("Time difference is zero; cannot compute speed.")
      distance_km = feature_distance * GSD / 100000.0
      speed = distance_km / time_difference
      return speed
  \<close>
\<close>

definition calculate_speed_in_kmps :: "real \<Rightarrow> real \<Rightarrow> real \<Rightarrow> error + real" where
  "calculate_speed_in_kmps feature_distance GSD time_difference =
     (if time_difference = 0 then Inl ValueError
      else (let distance_km = feature_distance * GSD / 100000;
                speed = distance_km / time_difference
            in Inr speed))"

subsection \<open>Sequence indexing\<close>

text \<open>
  \<open>seq[i]\<close> on a Python list or tuple of length \<open>n\<close>: an index from \<open>0\<close> to \<open>n - 1\<close>
  reads from the front, one from \<open>-n\<close> to \<open>-1\<close> reads from the back, any other raises
  \<open>IndexError\<close>.
\<close>

definition getitem :: "'a list \<Rightarrow> int \<Rightarrow> error + 'a" where
  "getitem seq i =
     (if 0 \<le> i \<and> i < int (length seq) then Inr (seq ! nat i)
      else if - int (length seq) \<le> i \<and> i < 0 then Inr (seq ! nat (int (length seq) + i))
      else Inl IndexError)"

subsection \<open>Keypoints and matches\<close>

text \<open>
  Of \<open>cv2.KeyPoint\<close> the program reads the field \<open>pt\<close>, of \<open>cv2.DMatch\<close> the fields
  \<open>queryIdx\<close>, \<open>trainIdx\<close> (C ints, so possibly negative) and \<open>distance\<close>.
\<close>

record keypoint =
  pt :: "real \<times> real"

record dmatch =
  queryIdx :: int
  trainIdx :: int
  distance :: real

type_synonym coordinates = "(real \<times> real) list"

subsection \<open>The collaborators\<close>

text \<open>
  What the program calls outside the repository, as the fields of one record:
  \<^item> \<open>take_photo\<close>: \<open>cam.take_photo(name)\<close>, the path of the stored photograph;
  \<^item> \<open>read_exif\<close>: \<open>open(image, 'rb')\<close>, \<open>Image(image_file)\<close> and
    \<open>img.get("datetime_original")\<close>, which is a string or \<open>None\<close>;
  \<^item> \<open>strptime\<close>: \<open>datetime.strptime(time_str, '%Y:%m:%d %H:%M:%S')\<close>; the format has
    whole seconds only, so a \<open>datetime\<close> is a count of seconds;
  \<^item> \<open>imread\<close>: \<open>cv2.imread(path, cv2.IMREAD_GRAYSCALE)\<close>, \<open>None\<close> for a file that
    cannot be read;
  \<^item> \<open>detectAndCompute\<close>: \<open>cv2.ORB_create(nfeatures=n).detectAndCompute(image, None)\<close>,
    the keypoints and the descriptors (\<open>None\<close> when there are none);
  \<^item> \<open>now\<close>: what \<open>datetime.now()\<close> reads in the \<open>finally\<close> block, in seconds.
\<close>

type_synonym datetime = int
type_synonym image = "nat list list"
type_synonym descriptor = "bool list"

record env =
  take_photo :: "string \<Rightarrow> error + string"
  read_exif :: "string \<Rightarrow> error + string option"
  strptime :: "string \<Rightarrow> error + datetime"
  imread :: "string \<Rightarrow> image option"
  detectAndCompute :: "nat \<Rightarrow> image \<Rightarrow> error + keypoint list \<times> descriptor list option"
  now :: real

subsection \<open>get_time and get_time_difference\<close>

text \<open>
  \<^verbatim>\<open>
  def get_time(image):
      try:
          with open(image, 'rb') as image_file:
              img = Image(image_file)
              time_str = img.get("datetime_original")
              if not time_str:
                  raise ValueError(...)
              time_value = datetime.strptime(time_str, '%Y:%m:%d %H:%M:%S')
      except Exception as e:
          print(...)
          raise
      return time_value
  \<close>
  \<open>not time_str\<close> is true of \<open>None\<close> and of the empty string. The argument \<open>image\<close>
  is \<open>image_path\<close> here.
\<close>

definition get_time :: "env \<Rightarrow> string \<Rightarrow> error + datetime" where
  "get_time w image_path =
     (case read_exif w image_path of
        Inl e \<Rightarrow> Inl e
      | Inr time_str \<Rightarrow>
          (if time_str = None \<or> time_str = Some [] then Inl ValueError
           else strptime w (the time_str)))"

text \<open>
  \<^verbatim>\<open>
  def get_time_difference(image_1, image_2):
      try:
          time_1 = get_time(image_1)
          time_2 = get_time(image_2)
          time_difference = time_2 - time_1
      except Exception as e:
          print(...)
          raise
      return abs(time_difference.total_seconds())
  \<close>
\<close>

definition get_time_difference :: "env \<Rightarrow> string \<Rightarrow> string \<Rightarrow> error + real" where
  "get_time_difference w image_1 image_2 =
     (case get_time w image_1 of
        Inl e \<Rightarrow> Inl e
      | Inr time_1 \<Rightarrow>
          (case get_time w image_2 of
             Inl e \<Rightarrow> Inl e
           | Inr time_2 \<Rightarrow>
               (let time_difference = time_2 - time_1
                in Inr \<bar>real_of_int time_difference\<bar>)))"

subsection \<open>convert_to_cv and calculate_features\<close>

text \<open>
  \<^verbatim>\<open>
  def convert_to_cv(image_1, image_2):
      image_1_cv = cv2.imread(image_1, cv2.IMREAD_GRAYSCALE)
      image_2_cv = cv2.imread(image_2, cv2.IMREAD_GRAYSCALE)
      if image_1_cv is None:
          raise ValueError(f"Failed to read image: {image_1}")
      if image_2_cv is None:
          raise ValueError(f"Failed to read image: {image_2}")
      return image_1_cv, image_2_cv
  \<close>
\<close>

definition convert_to_cv :: "env \<Rightarrow> string \<Rightarrow> string \<Rightarrow> error + image \<times> image" where
  "convert_to_cv w image_1 image_2 =
     (let image_1_cv = imread w image_1;
          image_2_cv = imread w image_2
      in if image_1_cv = None then Inl ValueError
         else if image_2_cv = None then Inl ValueError
         else Inr (the image_1_cv, the image_2_cv))"

text \<open>
  \<^verbatim>\<open>
  def calculate_features(image_1, image_2, feature_number):
      orb = cv2.ORB_create(nfeatures=feature_number)
      keypoints_1, descriptors_1 = orb.detectAndCompute(image_1, None)
      keypoints_2, descriptors_2 = orb.detectAndCompute(image_2, None)
      return keypoints_1, keypoints_2, descriptors_1, descriptors_2
  \<close>
\<close>

definition calculate_features ::
  "env \<Rightarrow> image \<Rightarrow> image \<Rightarrow> nat
     \<Rightarrow> error + keypoint list \<times> keypoint list \<times> descriptor list option \<times> descriptor list option"
  where
  "calculate_features w image_1 image_2 feature_number =
     (case detectAndCompute w feature_number image_1 of
        Inl e \<Rightarrow> Inl e
      | Inr (keypoints_1, descriptors_1) \<Rightarrow>
          (case detectAndCompute w feature_number image_2 of
             Inl e \<Rightarrow> Inl e
           | Inr (keypoints_2, descriptors_2) \<Rightarrow>
               Inr (keypoints_1, keypoints_2, descriptors_1, descriptors_2)))"

subsection \<open>calculate_matches\<close>

text \<open>
  Modelled from the spec: \<open>cv2.BFMatcher(cv2.NORM_HAMMING, crossCheck=True).match\<close>, a call
  into OpenCV. The spec (4.3) gives the distance as the Hamming distance over binary
  descriptors, the count of mismatching bits, and keeps a match only if it is the best
  choice for the query descriptor and the best choice for the matched descriptor. The best
  choice is taken to be the first descriptor at the least distance. Descriptors are of one
  fixed length (spec 3; ORB's are 32 bytes), so the two sets have the same width; sets of
  different widths, which OpenCV refuses, are outside this data model.

  The spec's failure on an empty set is a sentence about \<open>calculate_matches\<close>, whose only
  test is the one for \<open>None\<close> below. What the library call does with an empty set is
  OpenCV's: for an empty query set it returns at once with no match, and for a non-empty
  query set against an empty train set it raises \<open>cv2.error\<close> (here \<open>ExternalError\<close>).
\<close>

definition hamming :: "descriptor \<Rightarrow> descriptor \<Rightarrow> nat" where
  "hamming a b = length (filter (\<lambda>(x, y). x \<noteq> y) (zip a b))"

definition nearest :: "descriptor \<Rightarrow> descriptor list \<Rightarrow> nat option" where
  "nearest d ds =
     (if ds = [] then None
      else Some (arg_min_list (\<lambda>j. hamming d (ds ! j)) [0..<length ds]))"

definition match_row :: "descriptor list \<Rightarrow> descriptor list \<Rightarrow> nat \<Rightarrow> dmatch list" where
  "match_row qs ts i =
     (case nearest (qs ! i) ts of
        None \<Rightarrow> []
      | Some j \<Rightarrow>
          (if nearest (ts ! j) qs = Some i
           then [\<lparr>queryIdx = int i, trainIdx = int j,
                  distance = real (hamming (qs ! i) (ts ! j))\<rparr>]
           else []))"

definition brute_force_match ::
  "descriptor list \<Rightarrow> descriptor list \<Rightarrow> error + dmatch list" where
  "brute_force_match qs ts =
     (if qs = [] then Inr []
      else if ts = [] then Inl ExternalError
      else Inr (concat (map (match_row qs ts) [0..<length qs])))"

text \<open>
  \<^verbatim>\<open>
  def calculate_matches(descriptors_1, descriptors_2):
      if descriptors_1 is None or descriptors_2 is None:
          raise ValueError("Descriptors cannot be None for matching.")
      brute_force = cv2.BFMatcher(cv2.NORM_HAMMING, crossCheck=True)
      matches = brute_force.match(descriptors_1, descriptors_2)
      matches = sorted(matches, key=lambda x: x.distance)
      return matches
  \<close>
  \<open>sorted\<close> is stable, as \<open>sort_key\<close> is. An exception raised by the matcher propagates.
\<close>

definition calculate_matches ::
  "descriptor list option \<Rightarrow> descriptor list option \<Rightarrow> error + dmatch list" where
  "calculate_matches descriptors_1 descriptors_2 =
     (if descriptors_1 = None \<or> descriptors_2 = None then Inl ValueError
      else (case brute_force_match (the descriptors_1) (the descriptors_2) of
              Inl e \<Rightarrow> Inl e
            | Inr matches \<Rightarrow>
                (let matches = sort_key distance matches
                 in Inr matches)))"

subsection \<open>find_matching_coordinates\<close>

text \<open>
  \<^verbatim>\<open>
  def find_matching_coordinates(keypoints_1, keypoints_2, matches):
      coordinates_1 = []
      coordinates_2 = []
      for match in matches:
          try:
              image_1_idx = match.queryIdx
              image_2_idx = match.trainIdx
              (x1, y1) = keypoints_1[image_1_idx].pt
              (x2, y2) = keypoints_2[image_2_idx].pt
              coordinates_1.append((x1, y1))
              coordinates_2.append((x2, y2))
          except IndexError as e:
              print(f"Index error in find_matching_coordinates: {e}")
              continue
      return coordinates_1, coordinates_2
  \<close>
  The body of the \<open>for\<close> loop is \<open>resolve_match\<close>: the two lookups in the order of the
  source, the two appends after both, and the \<open>except\<close> branch leaving both lists as they
  were.
\<close>

definition resolve_match ::
  "keypoint list \<Rightarrow> keypoint list \<Rightarrow> dmatch \<Rightarrow> coordinates \<times> coordinates
     \<Rightarrow> coordinates \<times> coordinates" where
  "resolve_match keypoints_1 keypoints_2 match acc =
     (case getitem keypoints_1 (queryIdx match) of
        Inl e \<Rightarrow> acc
      | Inr kp1 \<Rightarrow>
          (case getitem keypoints_2 (trainIdx match) of
             Inl e \<Rightarrow> acc
           | Inr kp2 \<Rightarrow> (fst acc @ [pt kp1], snd acc @ [pt kp2])))"

fun resolve_matches ::
  "keypoint list \<Rightarrow> keypoint list \<Rightarrow> dmatch list \<Rightarrow> coordinates \<times> coordinates
     \<Rightarrow> coordinates \<times> coordinates" where
  "resolve_matches keypoints_1 keypoints_2 [] acc = acc"
| "resolve_matches keypoints_1 keypoints_2 (match # matches) acc =
     resolve_matches keypoints_1 keypoints_2 matches
       (resolve_match keypoints_1 keypoints_2 match acc)"

definition find_matching_coordinates ::
  "keypoint list \<Rightarrow> keypoint list \<Rightarrow> dmatch list \<Rightarrow> coordinates \<times> coordinates" where
  "find_matching_coordinates keypoints_1 keypoints_2 matches =
     resolve_matches keypoints_1 keypoints_2 matches ([], [])"

subsection \<open>calculate_mean_distance\<close>

text \<open>\<open>math.hypot(x, y)\<close>, the Euclidean norm of \<open>(x, y)\<close>.\<close>

definition hypot :: "real \<Rightarrow> real \<Rightarrow> real" where
  "hypot x y = sqrt (x\<^sup>2 + y\<^sup>2)"

text \<open>
  \<^verbatim>\<open>
  def calculate_mean_distance(coordinates_1, coordinates_2):
      if not coordinates_1 or not coordinates_2 or len(coordinates_1) != len(coordinates_2):
          return 0.0
      total_distance = 0.0
      for (x1, y1), (x2, y2) in zip(coordinates_1, coordinates_2):
          distance = math.hypot(x1 - x2, y1 - y2)
          total_distance += distance
      return total_distance / len(coordinates_1)
  \<close>
\<close>

fun sum_distances :: "((real \<times> real) \<times> (real \<times> real)) list \<Rightarrow> real \<Rightarrow> real" where
  "sum_distances [] total_distance = total_distance"
| "sum_distances (((x1, y1), (x2, y2)) # pairs) total_distance =
     sum_distances pairs (total_distance + hypot (x1 - x2) (y1 - y2))"

definition calculate_mean_distance :: "coordinates \<Rightarrow> coordinates \<Rightarrow> real" where
  "calculate_mean_distance coordinates_1 coordinates_2 =
     (if coordinates_1 = [] \<or> coordinates_2 = []
         \<or> length coordinates_1 \<noteq> length coordinates_2
      then 0
      else sum_distances (zip coordinates_1 coordinates_2) 0 / real (length coordinates_1))"

subsection \<open>main: one cycle\<close>

text \<open>\<open>str(i)\<close> for a non-negative \<open>i\<close>, and the file name \<open>f"image{i}.jpg"\<close>.\<close>

fun str_nat :: "nat \<Rightarrow> string" where
  "str_nat n =
     (if n < 10 then [''0123456789'' ! n]
      else str_nat (n div 10) @ [''0123456789'' ! (n mod 10)])"

declare str_nat.simps [simp del]

definition image_name :: "nat \<Rightarrow> string" where
  "image_name i = ''image'' @ str_nat i @ ''.jpg''"

text \<open>
  The \<open>try\<close> block of the loop, from the time difference to the speed:
  \<^verbatim>\<open>
  time_difference = get_time_difference(image_1, image_2)
  image_1_cv, image_2_cv = convert_to_cv(image_1, image_2)
  keypoints_1, keypoints_2, descriptors_1, descriptors_2 =
      calculate_features(image_1_cv, image_2_cv, 1000)
  matches = calculate_matches(descriptors_1, descriptors_2)
  coordinates_1, coordinates_2 = find_matching_coordinates(keypoints_1, keypoints_2, matches)
  average_feature_distance = calculate_mean_distance(coordinates_1, coordinates_2)
  speed = calculate_speed_in_kmps(average_feature_distance, 24451.525, time_difference)
  \<close>
  The first stage that raises ends the block with its exception.
\<close>

definition measure_speed :: "env \<Rightarrow> string \<Rightarrow> string \<Rightarrow> error + real" where
  "measure_speed w image_1 image_2 =
     (case get_time_difference w image_1 image_2 of
        Inl e \<Rightarrow> Inl e
      | Inr time_difference \<Rightarrow>
     (case convert_to_cv w image_1 image_2 of
        Inl e \<Rightarrow> Inl e
      | Inr (image_1_cv, image_2_cv) \<Rightarrow>
     (case calculate_features w image_1_cv image_2_cv 1000 of
        Inl e \<Rightarrow> Inl e
      | Inr (keypoints_1, keypoints_2, descriptors_1, descriptors_2) \<Rightarrow>
     (case calculate_matches descriptors_1 descriptors_2 of
        Inl e \<Rightarrow> Inl e
      | Inr matches \<Rightarrow>
     (case find_matching_coordinates keypoints_1 keypoints_2 matches of
        (coordinates_1, coordinates_2) \<Rightarrow>
          (let average_feature_distance = calculate_mean_distance coordinates_1 coordinates_2
           in calculate_speed_in_kmps average_feature_distance 24451.525 time_difference))))))"

text \<open>
  The two captures before it, with the counter \<open>i\<close> advanced after each capture that
  succeeds:
  \<^verbatim>\<open>
  image_1 = cam.take_photo(f"image{i}.jpg")
  i += 1
  sleep(9)
  image_2 = cam.take_photo(f"image{i}.jpg")
  i += 1
  \<close>
  The result is the counter after the block and the block's outcome: the speed that
  reaches \<open>speeds.append(speed)\<close>, or the exception that reaches \<open>except Exception\<close>.
\<close>

definition cycle :: "env \<Rightarrow> nat \<Rightarrow> nat \<times> (error + real)" where
  "cycle w i =
     (case take_photo w (image_name i) of
        Inl e \<Rightarrow> (i, Inl e)
      | Inr image_1 \<Rightarrow>
          (case take_photo w (image_name (i + 1)) of
             Inl e \<Rightarrow> (i + 1, Inl e)
           | Inr image_2 \<Rightarrow> (i + 2, measure_speed w image_1 image_2)))"

text \<open>
  One pass through \<open>try\<close>/\<open>except\<close>: a speed is appended, an exception is printed and
  dropped.
\<close>

definition iteration :: "env \<Rightarrow> nat \<Rightarrow> real list \<Rightarrow> nat \<times> real list" where
  "iteration w i speeds =
     (case cycle w i of
        (i', Inr speed) \<Rightarrow> (i', speeds @ [speed])
      | (i', Inl e) \<Rightarrow> (i', speeds))"

subsection \<open>main: the loop and the result\<close>

text \<open>
  \<^verbatim>\<open>
  while now_time < start_time + timedelta(minutes=5):
      try: ...
      except Exception as e: ...
      finally:
          sleep(1)
          now_time = datetime.now()
  \<close>
  Times are in seconds. \<open>world n\<close> is the collaborators as they answer during pass \<open>n\<close>
  of the loop. The loop ends when the clock says so; where it never does, the result is
  \<open>None\<close>.
\<close>

partial_function (option) sampling_loop ::
  "(nat \<Rightarrow> env) \<Rightarrow> real \<Rightarrow> nat \<Rightarrow> real \<Rightarrow> nat \<Rightarrow> real list \<Rightarrow> real list option" where
  "sampling_loop world start_time n now_time i speeds =
     (if now_time < start_time + 300
      then sampling_loop world start_time (n + 1) (now (world n))
             (fst (iteration (world n) i speeds)) (snd (iteration (world n) i speeds))
      else Some speeds)"

text \<open>
  \<^verbatim>\<open>
  if speeds:
      average_speed = sum(speeds) / len(speeds)
  else:
      average_speed = 0
  \<close>
\<close>

definition average_speed :: "real list \<Rightarrow> real" where
  "average_speed speeds =
     (if speeds \<noteq> [] then sum_list speeds / real (length speeds) else 0)"

text \<open>
  \<open>round(x, ndigits)\<close>: the nearest multiple of \<open>10 ^ (- ndigits)\<close>, a tie going to the
  even multiple.
\<close>

definition round_half_even :: "real \<Rightarrow> int" where
  "round_half_even x =
     (if x - of_int \<lfloor>x\<rfloor> < 1 / 2 then \<lfloor>x\<rfloor>
      else if 1 / 2 < x - of_int \<lfloor>x\<rfloor> then \<lfloor>x\<rfloor> + 1
      else if even \<lfloor>x\<rfloor> then \<lfloor>x\<rfloor>
      else \<lfloor>x\<rfloor> + 1)"

definition py_round :: "real \<Rightarrow> nat \<Rightarrow> real" where
  "py_round x ndigits = of_int (round_half_even (x * 10 ^ ndigits)) / 10 ^ ndigits"

text \<open>The number written to \<open>results.txt\<close> and printed: \<open>round(average_speed, 5)\<close>.\<close>

definition session_result :: "real list \<Rightarrow> real" where
  "session_result speeds = py_round (average_speed speeds) 5"

text \<open>
  \<open>main\<close>: \<open>start_time\<close> and \<open>now_time\<close> are the two readings of the clock before the
  loop, \<open>i\<close> starts at \<open>1\<close>, \<open>speeds\<close> empty.
\<close>

definition main :: "(nat \<Rightarrow> env) \<Rightarrow> real \<Rightarrow> real \<Rightarrow> real option" where
  "main world start_time now_time =
     map_option session_result (sampling_loop world start_time 0 now_time 1 [])"

subsection \<open>A sample run\<close>

text \<open>
  Collaborators for the examples below: the camera stores every photograph but
  \<open>image3.jpg\<close>; \<open>image1.jpg\<close> and \<open>image2.jpg\<close> were taken ten seconds apart and
  show one feature, at \<open>(0, 0)\<close> and at \<open>(3, 4)\<close>; the clock reads \<open>310\<close> seconds after
  a pass of the loop.
\<close>

definition example_env :: env where
  "example_env =
     \<lparr>take_photo = (\<lambda>name. if name = ''image3.jpg'' then Inl ExternalError else Inr name),
      read_exif = (\<lambda>path.
         if path = ''image1.jpg'' then Inr (Some ''2024:05:01 10:00:00'')
         else if path = ''image2.jpg'' then Inr (Some ''2024:05:01 10:00:10'')
         else Inr None),
      strptime = (\<lambda>s.
         if s = ''2024:05:01 10:00:00'' then Inr 36000
         else if s = ''2024:05:01 10:00:10'' then Inr 36010
         else Inl ValueError),
      imread = (\<lambda>path.
         if path = ''image1.jpg'' then Some [[10]]
         else if path = ''image2.jpg'' then Some [[20]]
         else None),
      detectAndCompute = (\<lambda>n img.
         if img = [[10]] then Inr ([\<lparr>pt = (0, 0)\<rparr>], Some [[True, False]])
         else Inr ([\<lparr>pt = (3, 4)\<rparr>], Some [[True, False]])),
      now = 310\<rparr>"

section \<open>Properties\<close>

subsection \<open>SpeedCalculator\<close>

text \<open>
  C1. For every mean pixel displacement \<open>d\<close>, ground sample distance \<open>g\<close> and elapsed
  time \<open>t\<close> other than zero, \<open>calculate_speed_in_kmps\<close> returns \<open>(d * g / 100000) / t\<close>;
  for \<open>d = 10\<close>, \<open>g = 100000\<close>, \<open>t = 10\<close> it returns \<open>1\<close>.
\<close>

theorem speed_contract:
  "(t \<noteq> 0 \<longrightarrow> calculate_speed_in_kmps d g t = Inr ((d * g / 100000) / t))
   \<and> calculate_speed_in_kmps 10 100000 10 = Inr 1"
  by (simp add: calculate_speed_in_kmps_def)

theorem speed_contract_witness:
  "(2::real) \<noteq> 0 \<and> calculate_speed_in_kmps 50 2000 2 = Inr (1/2)"
  using speed_contract [of 2 50 2000] by simp

text \<open>
  C2. \<open>calculate_speed_in_kmps\<close> raises exactly when the elapsed time is zero: at zero
  the outcome is the \<open>ValueError\<close> and no value at all, and at every other elapsed time
  the outcome is a value.
\<close>

theorem speed_raises_iff_zero:
  "(isl (calculate_speed_in_kmps d g t) \<longleftrightarrow> t = 0)
   \<and> calculate_speed_in_kmps d g 0 = Inl ValueError
   \<and> (\<forall>v. calculate_speed_in_kmps d g 0 \<noteq> Inr v)
   \<and> (t \<noteq> 0 \<longrightarrow> (\<exists>v. calculate_speed_in_kmps d g t = Inr v))"
  by (simp add: calculate_speed_in_kmps_def)

theorem speed_raises_iff_zero_witness:
  "(3::real) \<noteq> 0 \<and> \<not> isl (calculate_speed_in_kmps 6 100000 3)
   \<and> calculate_speed_in_kmps 6 100000 0 = Inl ValueError
   \<and> calculate_speed_in_kmps 6 100000 3 = Inr 2"
  using speed_raises_iff_zero [of 6 100000 3]
  by (simp add: calculate_speed_in_kmps_def)

subsection \<open>DisplacementAggregator\<close>

lemma sum_distances_acc:
  "sum_distances ps acc =
     acc + (\<Sum>p\<leftarrow>ps. hypot (fst (fst p) - fst (snd p)) (snd (fst p) - snd (snd p)))"
  by (induction ps acc rule: sum_distances.induct) simp_all

lemma sum_distances_zip:
  assumes "length c1 = length c2"
  shows "sum_distances (zip c1 c2) 0 =
     (\<Sum>i<length c1. sqrt ((fst (c1 ! i) - fst (c2 ! i))\<^sup>2 + (snd (c1 ! i) - snd (c2 ! i))\<^sup>2))"
  using assms by (simp add: sum_distances_acc sum_list_sum_nth hypot_def atLeast0LessThan)

lemma hypot_3_4: "hypot (0 - 3) (0 - 4) = 5"
proof -
  have "sqrt ((5::real)\<^sup>2) = 5" by (simp del: real_sqrt_abs)
  then show ?thesis by (simp add: hypot_def)
qed

text \<open>
  C4. \<open>calculate_mean_distance\<close> is a total function to the reals (no outcome is an
  error). For two non-empty coordinate sequences of one length it is the sum over all
  positions of \<open>sqrt ((x1 - x2)\<^sup>2 + (y1 - y2)\<^sup>2)\<close> divided by the length; if either is
  empty or the lengths differ it is \<open>0\<close>; for \<open>[(0, 0)]\<close> and \<open>[(3, 4)]\<close> it is \<open>5\<close>.
\<close>

theorem mean_distance_contract:
  "(c1 \<noteq> [] \<and> length c1 = length c2 \<longrightarrow>
      calculate_mean_distance c1 c2 =
        (\<Sum>i<length c1. sqrt ((fst (c1 ! i) - fst (c2 ! i))\<^sup>2 + (snd (c1 ! i) - snd (c2 ! i))\<^sup>2))
          / real (length c1))
   \<and> (c1 = [] \<or> c2 = [] \<or> length c1 \<noteq> length c2 \<longrightarrow> calculate_mean_distance c1 c2 = 0)
   \<and> calculate_mean_distance [(0, 0)] [(3, 4)] = 5"
proof (intro conjI impI)
  assume "c1 \<noteq> [] \<and> length c1 = length c2"
  then show "calculate_mean_distance c1 c2 =
      (\<Sum>i<length c1. sqrt ((fst (c1 ! i) - fst (c2 ! i))\<^sup>2 + (snd (c1 ! i) - snd (c2 ! i))\<^sup>2))
        / real (length c1)"
    using sum_distances_zip [of c1 c2] by (auto simp add: calculate_mean_distance_def)
next
  assume "c1 = [] \<or> c2 = [] \<or> length c1 \<noteq> length c2"
  then show "calculate_mean_distance c1 c2 = 0"
    by (auto simp add: calculate_mean_distance_def)
next
  show "calculate_mean_distance [(0, 0)] [(3, 4)] = 5"
    using hypot_3_4 by (simp add: calculate_mean_distance_def)
qed

theorem mean_distance_contract_witness:
  "[(0, 0), (1, 1)] \<noteq> [] \<and> length [(0::real, 0::real), (1, 1)] = length [(3::real, 4::real), (1, 1)]
   \<and> calculate_mean_distance [(0, 0), (1, 1)] [(3, 4), (1, 1)] = 5 / 2
   \<and> calculate_mean_distance [] [(3, 4)] = 0
   \<and> calculate_mean_distance [(0, 0), (1, 1)] [(3, 4)] = 0"
proof -
  have five: "sqrt 25 = 5"
    using real_sqrt_abs [of 5] by simp
  have "calculate_mean_distance [(0, 0), (1, 1)] [(3, 4), (1, 1)] = 5 / 2"
    using mean_distance_contract [of "[(0, 0), (1, 1)]" "[(3, 4), (1, 1)]"] five
    by (simp add: lessThan_Suc numeral_2_eq_2)
  moreover have "calculate_mean_distance [] [(3, 4)] = 0"
    using mean_distance_contract [of "[]" "[(3, 4)]"] by simp
  moreover have "calculate_mean_distance [(0, 0), (1, 1)] [(3, 4)] = 0"
    using mean_distance_contract [of "[(0, 0), (1, 1)]" "[(3, 4)]"] by simp
  ultimately show ?thesis by simp
qed

subsection \<open>Index resolution\<close>

lemma resolve_match_cases:
  "resolve_match k1 k2 m acc = acc \<or>
   (\<exists>p q. resolve_match k1 k2 m acc = (fst acc @ [p], snd acc @ [q]))"
  by (auto simp: resolve_match_def split: sum.splits)

lemma resolve_match_front:
  assumes "0 \<le> queryIdx m" "queryIdx m < int (length k1)"
    and "0 \<le> trainIdx m" "trainIdx m < int (length k2)"
  shows "resolve_match k1 k2 m acc =
     (fst acc @ [pt (k1 ! nat (queryIdx m))], snd acc @ [pt (k2 ! nat (trainIdx m))])"
  using assms by (simp add: resolve_match_def getitem_def)

lemma resolve_match_beyond:
  assumes "int (length k1) \<le> queryIdx m \<or> queryIdx m < - int (length k1)
     \<or> int (length k2) \<le> trainIdx m \<or> trainIdx m < - int (length k2)"
  shows "resolve_match k1 k2 m acc = acc"
  using assms by (auto simp add: resolve_match_def getitem_def split: sum.splits)

lemma resolve_matches_length:
  "length (fst acc) = length (snd acc) \<Longrightarrow>
   length (fst (resolve_matches k1 k2 ms acc)) = length (snd (resolve_matches k1 k2 ms acc))"
proof (induction ms arbitrary: acc)
  case Nil
  then show ?case by simp
next
  case (Cons m ms)
  have "length (fst (resolve_match k1 k2 m acc)) = length (snd (resolve_match k1 k2 m acc))"
    using resolve_match_cases [of k1 k2 m acc] Cons.prems by auto
  from Cons.IH [OF this] show ?case by simp
qed

text \<open>
  C9 (every match with an out-of-range index is skipped) does not hold. A match whose
  \<open>queryIdx\<close> is \<open>-1\<close> is not skipped: \<open>keypoints_1[-1]\<close> is the last keypoint and raises
  no \<open>IndexError\<close>, so the match contributes the coordinates of a keypoint it does not
  refer to. Here the first keypoint set has two keypoints and the only match has
  \<open>queryIdx = -1\<close>; the result holds the second keypoint's coordinates instead of being
  empty.
\<close>

theorem negative_index_not_skipped:
  "find_matching_coordinates [\<lparr>pt = (1, 2)\<rparr>, \<lparr>pt = (5, 6)\<rparr>] [\<lparr>pt = (3, 4)\<rparr>]
     [\<lparr>queryIdx = - 1, trainIdx = 0, distance = 0\<rparr>] = ([(5, 6)], [(3, 4)])"
  by (simp add: find_matching_coordinates_def resolve_match_def getitem_def)

text \<open>
  C10. The two lists \<open>find_matching_coordinates\<close> returns have the same length: one pass
  of its loop leaves both lists as they were or appends one coordinate to each. So, on
  its result, the length test of \<open>calculate_mean_distance\<close> never decides: the outcome
  is \<open>0\<close> for empty lists and the mean of the distances otherwise.
\<close>

theorem coordinates_same_length:
  assumes "find_matching_coordinates k1 k2 ms = (c1, c2)"
  shows "length c1 = length c2
    \<and> (resolve_match k1 k2 m (a, b) = (a, b)
        \<or> (\<exists>p q. resolve_match k1 k2 m (a, b) = (a @ [p], b @ [q])))
    \<and> calculate_mean_distance c1 c2 =
        (if c1 = [] then 0 else sum_distances (zip c1 c2) 0 / real (length c1))"
proof -
  have len: "length c1 = length c2"
    using resolve_matches_length [of "([], [])" k1 k2 ms] assms
    by (simp add: find_matching_coordinates_def)
  have step: "resolve_match k1 k2 m (a, b) = (a, b)
        \<or> (\<exists>p q. resolve_match k1 k2 m (a, b) = (a @ [p], b @ [q]))"
    using resolve_match_cases [of k1 k2 m "(a, b)"] by simp
  have "calculate_mean_distance c1 c2 =
        (if c1 = [] then 0 else sum_distances (zip c1 c2) 0 / real (length c1))"
    using len by (auto simp add: calculate_mean_distance_def)
  with len step show ?thesis by blast
qed

theorem coordinates_same_length_witness:
  "find_matching_coordinates [\<lparr>pt = (0, 0)\<rparr>] [\<lparr>pt = (3, 4)\<rparr>]
     [\<lparr>queryIdx = 0, trainIdx = 0, distance = 1\<rparr>, \<lparr>queryIdx = 0, trainIdx = 5, distance = 2\<rparr>]
     = ([(0, 0)], [(3, 4)])
   \<and> length [(0::real, 0::real)] = length [(3::real, 4::real)]
   \<and> calculate_mean_distance [(0, 0)] [(3, 4)] = sum_distances (zip [(0, 0)] [(3, 4)]) 0 / 1"
proof -
  have run: "find_matching_coordinates [\<lparr>pt = (0, 0)\<rparr>] [\<lparr>pt = (3, 4)\<rparr>]
     [\<lparr>queryIdx = 0, trainIdx = 0, distance = 1\<rparr>, \<lparr>queryIdx = 0, trainIdx = 5, distance = 2\<rparr>]
     = ([(0, 0)], [(3, 4)])"
    by (simp add: find_matching_coordinates_def resolve_match_def getitem_def)
  from coordinates_same_length [OF run] run show ?thesis by simp
qed

subsection \<open>DescriptorMatcher\<close>

text \<open>
  C3 (matching fails whenever a descriptor set is empty or absent) does not hold for an
  empty first set: an empty descriptor set that is not \<open>None\<close> passes the guard, and the
  outcome is a success with no match.
\<close>

theorem empty_descriptors_counterexample:
  "calculate_matches (Some []) (Some [[True, False]]) = Inr []
   \<and> \<not> isl (calculate_matches (Some []) (Some [[True, False]]))"
  by (simp add: calculate_matches_def brute_force_match_def)

text \<open>
  C3, amended. \<open>calculate_matches\<close> fails with \<open>ValueError\<close> whenever a descriptor set
  is absent (\<open>None\<close>), and only then with that error: it has no test for an empty set.
  With both sets present, an empty first set gives a success with no match, and a
  non-empty first set against an empty second set fails with the matcher's own error,
  not with \<open>ValueError\<close>.
\<close>

theorem calculate_matches_absent_or_empty:
  "(descriptors_1 = None \<or> descriptors_2 = None
      \<longrightarrow> calculate_matches descriptors_1 descriptors_2 = Inl ValueError)
   \<and> (calculate_matches descriptors_1 descriptors_2 = Inl ValueError
      \<longrightarrow> descriptors_1 = None \<or> descriptors_2 = None)
   \<and> calculate_matches (Some []) (Some d2) = Inr []
   \<and> (d1 \<noteq> [] \<longrightarrow> calculate_matches (Some d1) (Some []) = Inl ExternalError)"
proof (intro conjI impI)
  assume "descriptors_1 = None \<or> descriptors_2 = None"
  then show "calculate_matches descriptors_1 descriptors_2 = Inl ValueError"
    by (simp add: calculate_matches_def)
next
  assume raised: "calculate_matches descriptors_1 descriptors_2 = Inl ValueError"
  show "descriptors_1 = None \<or> descriptors_2 = None"
  proof (rule ccontr)
    assume "\<not> (descriptors_1 = None \<or> descriptors_2 = None)"
    with raised show False
      by (auto simp add: calculate_matches_def brute_force_match_def
          split: if_splits sum.splits)
  qed
next
  show "calculate_matches (Some []) (Some d2) = Inr []"
    by (simp add: calculate_matches_def brute_force_match_def)
next
  assume "d1 \<noteq> []"
  then show "calculate_matches (Some d1) (Some []) = Inl ExternalError"
    by (simp add: calculate_matches_def brute_force_match_def)
qed

theorem calculate_matches_absent_or_empty_witness:
  "calculate_matches None (Some [[True, False]]) = Inl ValueError
   \<and> calculate_matches (Some [[True, False]]) None = Inl ValueError
   \<and> calculate_matches (Some []) (Some []) = Inr []
   \<and> [[True, False]] \<noteq> []
   \<and> calculate_matches (Some [[True, False]]) (Some []) = Inl ExternalError
   \<and> calculate_matches (Some [[True, False]]) (Some []) \<noteq> Inl ValueError"
  using calculate_matches_absent_or_empty [of None "Some [[True, False]]"]
    calculate_matches_absent_or_empty [of "Some [[True, False]]" None]
    calculate_matches_absent_or_empty [of "Some [[True, False]]" "Some []" "[]" "[[True, False]]"]
  by simp

lemma match_row_queryIdx: "m \<in> set (match_row qs ts i) \<Longrightarrow> queryIdx m = int i"
  by (auto simp: match_row_def split: option.splits if_splits)

lemma match_row_distance: "m \<in> set (match_row qs ts i) \<Longrightarrow> 0 \<le> distance m"
  by (auto simp: match_row_def split: option.splits if_splits)

lemma match_row_distinct: "distinct (map queryIdx (match_row qs ts i))"
  by (auto simp: match_row_def split: option.splits if_splits)

lemma rows_distinct:
  "distinct js \<Longrightarrow> distinct (map queryIdx (concat (map (match_row qs ts) js)))"
proof (induction js)
  case Nil thus ?case by simp
next
  case (Cons j js)
  have "queryIdx ` set (match_row qs ts j) \<inter> queryIdx ` (\<Union>x\<in>set js. set (match_row qs ts x)) = {}"
    using Cons.prems by (auto dest!: match_row_queryIdx)
  with Cons show ?case by (simp add: match_row_distinct)
qed

lemma brute_force_match_distinct:
  "brute_force_match qs ts = Inr ms \<Longrightarrow> distinct (map queryIdx ms)"
  by (auto simp: brute_force_match_def rows_distinct split: if_splits)

lemma brute_force_match_distance:
  "brute_force_match qs ts = Inr ms \<Longrightarrow> m \<in> set ms \<Longrightarrow> 0 \<le> distance m"
  by (auto simp: brute_force_match_def split: if_splits dest: match_row_distance)

lemma brute_force_match_nonempty:
  "qs \<noteq> [] \<Longrightarrow> ts \<noteq> [] \<Longrightarrow> \<exists>ms. brute_force_match qs ts = Inr ms"
  by (simp add: brute_force_match_def)

lemma distinct_map_sort_key:
  "distinct (map g (sort_key f xs)) = distinct (map g xs)"
  by (metis distinct_map distinct_sort set_sort)

lemma example_sorted_matches:
  "calculate_matches (Some [[True, True, False], [False, False, False]])
     (Some [[False, False, False], [True, True, True]])
   = Inr [\<lparr>queryIdx = 1, trainIdx = 0, distance = 0\<rparr>,
          \<lparr>queryIdx = 0, trainIdx = 1, distance = 1\<rparr>]"
  by (simp add: calculate_matches_def brute_force_match_def match_row_def nearest_def
      hamming_def upt_rec numeral_2_eq_2)

text \<open>
  C8. For two non-empty descriptor sets \<open>calculate_matches\<close> returns matches among which
  no two have the same \<open>queryIdx\<close>, every distance is at least \<open>0\<close>, and the distances
  ascend.
\<close>

theorem matches_one_to_one_sorted:
  assumes "d1 \<noteq> []" and "d2 \<noteq> []"
  shows "\<exists>ms. calculate_matches (Some d1) (Some d2) = Inr ms
     \<and> distinct (map queryIdx ms)
     \<and> (\<forall>m\<in>set ms. 0 \<le> distance m)
     \<and> sorted (map distance ms)"
proof -
  obtain ms where ms: "brute_force_match d1 d2 = Inr ms"
    using brute_force_match_nonempty [OF assms] by blast
  have "calculate_matches (Some d1) (Some d2) = Inr (sort_key distance ms)"
    by (simp add: calculate_matches_def ms)
  moreover have "distinct (map queryIdx (sort_key distance ms))"
    using brute_force_match_distinct [OF ms] by (simp add: distinct_map_sort_key)
  moreover have "\<forall>m\<in>set (sort_key distance ms). 0 \<le> distance m"
    using brute_force_match_distance [OF ms] by simp
  moreover have "sorted (map distance (sort_key distance ms))"
    by simp
  ultimately show ?thesis by blast
qed

theorem matches_one_to_one_sorted_witness:
  "[[True, True, False], [False, False, False]] \<noteq> []
   \<and> [[False, False, False], [True, True, True]] \<noteq> []
   \<and> calculate_matches (Some [[True, True, False], [False, False, False]])
        (Some [[False, False, False], [True, True, True]])
      = Inr [\<lparr>queryIdx = 1, trainIdx = 0, distance = 0\<rparr>,
             \<lparr>queryIdx = 0, trainIdx = 1, distance = 1\<rparr>]
   \<and> distinct [1, 0 :: int]
   \<and> sorted [0, 1 :: real]"
  using matches_one_to_one_sorted
      [of "[[True, True, False], [False, False, False]]"
          "[[False, False, False], [True, True, True]]"]
    example_sorted_matches
  by simp

subsection \<open>TimestampExtractor\<close>

lemma get_time_1: "get_time example_env ''image1.jpg'' = Inr 36000"
  by (simp add: get_time_def example_env_def)
lemma get_time_2: "get_time example_env ''image2.jpg'' = Inr 36010"
  by (simp add: get_time_def example_env_def)

text \<open>
  C7. For two images whose capture times \<open>ta\<close> and \<open>tb\<close> can be read,
  \<open>get_time_difference\<close> returns \<open>\<bar>tb - ta\<bar>\<close> seconds, the same in either order of the
  images, and never a negative number.
\<close>

theorem elapsed_seconds_symmetric:
  assumes "get_time w a = Inr ta" and "get_time w b = Inr tb"
  shows "get_time_difference w a b = Inr \<bar>real_of_int (tb - ta)\<bar>
     \<and> get_time_difference w a b = get_time_difference w b a
     \<and> (\<forall>v. get_time_difference w a b = Inr v \<longrightarrow> 0 \<le> v)"
  using assms by (auto simp add: get_time_difference_def Let_def)

theorem elapsed_seconds_symmetric_witness:
  "get_time example_env ''image1.jpg'' = Inr 36000
   \<and> get_time example_env ''image2.jpg'' = Inr 36010
   \<and> get_time_difference example_env ''image1.jpg'' ''image2.jpg'' = Inr 10
   \<and> get_time_difference example_env ''image2.jpg'' ''image1.jpg'' = Inr 10"
  using elapsed_seconds_symmetric [OF get_time_1 get_time_2]
    elapsed_seconds_symmetric [OF get_time_2 get_time_1] get_time_1 get_time_2
  by simp

subsection \<open>SamplingLoop: the result\<close>

lemma round_half_even_near: "\<bar>of_int (round_half_even x) - x\<bar> \<le> 1 / 2"
  unfolding round_half_even_def by (auto simp: abs_if; linarith)

lemma py_round_near: "\<bar>py_round x n - x\<bar> \<le> 1 / (2 * 10 ^ n)"
proof -
  have "py_round x n - x = (of_int (round_half_even (x * 10 ^ n)) - x * 10 ^ n) / 10 ^ n"
    by (simp add: py_round_def field_simps)
  then have "\<bar>py_round x n - x\<bar> = \<bar>of_int (round_half_even (x * 10 ^ n)) - x * 10 ^ n\<bar> / 10 ^ n"
    by (simp add: abs_divide del: of_int_diff)
  also have "\<dots> \<le> (1 / 2) / 10 ^ n"
    by (rule divide_right_mono [OF round_half_even_near]) simp
  finally show ?thesis by simp
qed

lemma round_half_even_of_int: "round_half_even (of_int k) = k"
  by (simp add: round_half_even_def)

lemma py_round_2: "py_round 2 5 = 2"
  using round_half_even_of_int [of 200000] by (simp add: py_round_def)

lemma py_round_0: "py_round 0 n = 0"
  using round_half_even_of_int [of 0] by (simp add: py_round_def)

text \<open>
  C5. The average of the accumulated speeds is their sum divided by their number when
  there is one, and \<open>0\<close> when there is none; \<open>[1, 2, 3]\<close> gives \<open>2\<close>. The result of the
  session is this average rounded to five decimal digits: a multiple of \<open>10\<^sup>-\<^sup>5\<close> at most
  half of \<open>10\<^sup>-\<^sup>5\<close> away from the average.
\<close>

theorem session_result_contract:
  "average_speed speeds = (if speeds = [] then 0 else sum_list speeds / real (length speeds))
   \<and> average_speed [1, 2, 3] = 2
   \<and> session_result [1, 2, 3] = 2
   \<and> session_result [] = 0
   \<and> session_result speeds = py_round (average_speed speeds) 5
   \<and> \<bar>session_result speeds - average_speed speeds\<bar> \<le> 5 / 10 ^ 6
   \<and> (\<exists>k::int. session_result speeds = of_int k / 10 ^ 5)"
proof -
  have a: "average_speed [1, 2, 3] = 2" by (simp add: average_speed_def)
  have b: "\<bar>session_result speeds - average_speed speeds\<bar> \<le> 5 / 10 ^ 6"
    using py_round_near [of "average_speed speeds" 5] by (simp add: session_result_def)
  have c: "\<exists>k::int. session_result speeds = of_int k / 10 ^ 5"
    unfolding session_result_def py_round_def by blast
  have d: "session_result [] = 0" by (simp add: session_result_def average_speed_def py_round_0)
  have e: "session_result [1, 2, 3] = 2" by (simp add: session_result_def a py_round_2)
  show ?thesis using a b c d e by (simp add: average_speed_def session_result_def)
qed

subsection \<open>SamplingLoop: one cycle\<close>

lemma image_names:
  "image_name 1 = ''image1.jpg''"
  "image_name 2 = ''image2.jpg''"
  "image_name 3 = ''image3.jpg''"
  by (simp_all add: image_name_def str_nat.simps)

lemma example_matches:
  "calculate_matches (Some [[True, False]]) (Some [[True, False]])
     = Inr [\<lparr>queryIdx = 0, trainIdx = 0, distance = 0\<rparr>]"
  by (simp add: calculate_matches_def brute_force_match_def match_row_def nearest_def hamming_def)

lemma example_coordinates:
  "find_matching_coordinates [\<lparr>pt = (0, 0)\<rparr>] [\<lparr>pt = (3, 4)\<rparr>]
     [\<lparr>queryIdx = 0, trainIdx = 0, distance = 0\<rparr>] = ([(0, 0)], [(3, 4)])"
  by (simp add: find_matching_coordinates_def resolve_match_def getitem_def)

lemma example_mean: "calculate_mean_distance [(0, 0)] [(3, 4)] = 5"
  using hypot_3_4 by (simp add: calculate_mean_distance_def)

lemma example_measure:
  "measure_speed example_env ''image1.jpg'' ''image2.jpg'' = Inr (5 * 24451.525 / 100000 / 10)"
proof -
  have td: "get_time_difference example_env ''image1.jpg'' ''image2.jpg'' = Inr 10"
    by (simp add: get_time_difference_def get_time_1 get_time_2)
  have cv: "convert_to_cv example_env ''image1.jpg'' ''image2.jpg'' = Inr ([[10]], [[20]])"
    by (simp add: convert_to_cv_def example_env_def)
  have ft: "calculate_features example_env [[10]] [[20]] 1000
     = Inr ([\<lparr>pt = (0, 0)\<rparr>], [\<lparr>pt = (3, 4)\<rparr>], Some [[True, False]], Some [[True, False]])"
    by (simp add: calculate_features_def example_env_def)
  show ?thesis
    by (simp add: measure_speed_def td cv ft example_matches example_coordinates example_mean
        calculate_speed_in_kmps_def)
qed

lemma example_cycle_1: "cycle example_env 1 = (3, Inr (5 * 24451.525 / 100000 / 10))"
proof -
  have "take_photo example_env ''image1.jpg'' = Inr ''image1.jpg''"
    and "take_photo example_env ''image2.jpg'' = Inr ''image2.jpg''"
    by (simp_all add: example_env_def)
  then show ?thesis
    by (simp add: cycle_def image_names example_measure del: One_nat_def)
qed

lemma example_cycle_3: "cycle example_env 3 = (3, Inl ExternalError)"
proof -
  have "take_photo example_env ''image3.jpg'' = Inl ExternalError"
    by (simp add: example_env_def)
  then show ?thesis
    by (simp add: cycle_def image_names del: One_nat_def)
qed

lemma cycle_Inr_iff:
  "snd (cycle w i) = Inr speed \<longleftrightarrow>
     (\<exists>image_1 image_2 time_difference image_1_cv image_2_cv
        keypoints_1 keypoints_2 descriptors_1 descriptors_2 matches.
        take_photo w (image_name i) = Inr image_1
      \<and> take_photo w (image_name (i + 1)) = Inr image_2
      \<and> get_time_difference w image_1 image_2 = Inr time_difference
      \<and> convert_to_cv w image_1 image_2 = Inr (image_1_cv, image_2_cv)
      \<and> calculate_features w image_1_cv image_2_cv 1000
            = Inr (keypoints_1, keypoints_2, descriptors_1, descriptors_2)
      \<and> calculate_matches descriptors_1 descriptors_2 = Inr matches
      \<and> calculate_speed_in_kmps
            (calculate_mean_distance
               (fst (find_matching_coordinates keypoints_1 keypoints_2 matches))
               (snd (find_matching_coordinates keypoints_1 keypoints_2 matches)))
            24451.525 time_difference = Inr speed)"
  by (auto simp add: cycle_def measure_speed_def Let_def split: sum.splits prod.splits)

lemma iteration_snd:
  "snd (iteration w i speeds) =
     (case snd (cycle w i) of Inl e \<Rightarrow> speeds | Inr speed \<Rightarrow> speeds @ [speed])"
  by (simp add: iteration_def split: prod.splits sum.splits)

lemma sampling_loop_done:
  "\<not> now_time < start_time + 300 \<Longrightarrow>
   sampling_loop world start_time n now_time i speeds = Some speeds"
  by (subst sampling_loop.simps) simp

lemma now_example: "now example_env = 310" by (simp add: example_env_def)

text \<open>
  The session produces a result as soon as some reading of the clock is past the
  deadline, whatever the cycles did; in the sample run the result is \<open>0.12226\<close>.
\<close>

lemma sampling_loop_returns:
  assumes "\<not> now (world (n + k)) < start_time + 300"
  shows "\<exists>result. sampling_loop world start_time n now_time i speeds = Some result"
  using assms
proof (induction k arbitrary: n now_time i speeds)
  case 0
  show ?case
  proof (cases "now_time < start_time + 300")
    case True
    then show ?thesis
      using 0 by (subst sampling_loop.simps) (simp add: sampling_loop_done)
  next
    case False
    then show ?thesis by (simp add: sampling_loop_done)
  qed
next
  case (Suc k)
  show ?case
  proof (cases "now_time < start_time + 300")
    case True
    have "\<not> now (world (n + 1 + k)) < start_time + 300" using Suc.prems by simp
    from Suc.IH [OF this] True show ?thesis
      by (subst sampling_loop.simps) simp
  next
    case False
    then show ?thesis by (simp add: sampling_loop_done)
  qed
qed

lemma main_example: "main (\<lambda>n. example_env) 0 0 = Some (12226 / 100000)"
proof -
  have "sampling_loop (\<lambda>n. example_env) 0 0 0 1 [] = Some [978061 / 8000000]"
    by (subst sampling_loop.simps)
      (simp add: iteration_def example_cycle_1 now_example sampling_loop_done del: One_nat_def)
  then show ?thesis
    by (simp add: main_def session_result_def average_speed_def py_round_def round_half_even_def)
qed

text \<open>
  C6. A pass of the loop whose \<open>try\<close> block raises leaves \<open>speeds\<close> as it was; a pass
  whose block ends with a speed appends that speed; the block ends with a speed exactly
  when both captures, the time difference, the image loading, the feature extraction,
  the matching and the speed calculation all succeed (the aggregation cannot fail). In
  either case, before the deadline the loop goes on with the next reading of the clock.
\<close>

theorem cycle_atomicity:
  "(\<forall>e. snd (cycle w i) = Inl e \<longrightarrow> snd (iteration w i speeds) = speeds)
   \<and> (\<forall>v. snd (cycle w i) = Inr v \<longrightarrow> snd (iteration w i speeds) = speeds @ [v])
   \<and> (snd (cycle w i) = Inr speed \<longleftrightarrow>
     (\<exists>image_1 image_2 time_difference image_1_cv image_2_cv
        keypoints_1 keypoints_2 descriptors_1 descriptors_2 matches.
        take_photo w (image_name i) = Inr image_1
      \<and> take_photo w (image_name (i + 1)) = Inr image_2
      \<and> get_time_difference w image_1 image_2 = Inr time_difference
      \<and> convert_to_cv w image_1 image_2 = Inr (image_1_cv, image_2_cv)
      \<and> calculate_features w image_1_cv image_2_cv 1000
            = Inr (keypoints_1, keypoints_2, descriptors_1, descriptors_2)
      \<and> calculate_matches descriptors_1 descriptors_2 = Inr matches
      \<and> calculate_speed_in_kmps
            (calculate_mean_distance
               (fst (find_matching_coordinates keypoints_1 keypoints_2 matches))
               (snd (find_matching_coordinates keypoints_1 keypoints_2 matches)))
            24451.525 time_difference = Inr speed))
   \<and> (now_time < start_time + 300 \<longrightarrow>
        sampling_loop world start_time n now_time i speeds =
        sampling_loop world start_time (n + 1) (now (world n))
          (fst (iteration (world n) i speeds)) (snd (iteration (world n) i speeds)))"
proof (intro conjI allI impI)
  fix e assume "snd (cycle w i) = Inl e"
  then show "snd (iteration w i speeds) = speeds" by (simp add: iteration_snd)
next
  fix v assume "snd (cycle w i) = Inr v"
  then show "snd (iteration w i speeds) = speeds @ [v]" by (simp add: iteration_snd)
next
  show "snd (cycle w i) = Inr speed \<longleftrightarrow>
     (\<exists>image_1 image_2 time_difference image_1_cv image_2_cv
        keypoints_1 keypoints_2 descriptors_1 descriptors_2 matches.
        take_photo w (image_name i) = Inr image_1
      \<and> take_photo w (image_name (i + 1)) = Inr image_2
      \<and> get_time_difference w image_1 image_2 = Inr time_difference
      \<and> convert_to_cv w image_1 image_2 = Inr (image_1_cv, image_2_cv)
      \<and> calculate_features w image_1_cv image_2_cv 1000
            = Inr (keypoints_1, keypoints_2, descriptors_1, descriptors_2)
      \<and> calculate_matches descriptors_1 descriptors_2 = Inr matches
      \<and> calculate_speed_in_kmps
            (calculate_mean_distance
               (fst (find_matching_coordinates keypoints_1 keypoints_2 matches))
               (snd (find_matching_coordinates keypoints_1 keypoints_2 matches)))
            24451.525 time_difference = Inr speed)"
    by (rule cycle_Inr_iff)
next
  assume "now_time < start_time + 300"
  then show "sampling_loop world start_time n now_time i speeds =
        sampling_loop world start_time (n + 1) (now (world n))
          (fst (iteration (world n) i speeds)) (snd (iteration (world n) i speeds))"
    by (subst sampling_loop.simps) simp
qed

theorem cycle_atomicity_witness:
  "snd (cycle example_env 3) = Inl ExternalError
   \<and> snd (iteration example_env 3 [7]) = [7]
   \<and> snd (cycle example_env 1) = Inr (978061 / 8000000)
   \<and> snd (iteration example_env 1 [7]) = [7, 978061 / 8000000]
   \<and> (0::real) < 0 + 300
   \<and> sampling_loop (\<lambda>n. example_env) 0 0 0 1 [] = Some [978061 / 8000000]"
proof -
  have "snd (iteration example_env 3 [7]) = [7]"
    using cycle_atomicity [of example_env 3 "[7]"] example_cycle_3 by simp
  moreover have "snd (iteration example_env 1 [7]) = [7, 978061 / 8000000]"
    using cycle_atomicity [of example_env 1 "[7]"] example_cycle_1 by simp
  moreover have "sampling_loop (\<lambda>n. example_env) 0 0 0 1 [] = Some [978061 / 8000000]"
    using cycle_atomicity [of example_env 1 "[]" _ 0 0 "\<lambda>n. example_env" 0]
      example_cycle_1
    by (simp add: now_example sampling_loop_done iteration_def del: One_nat_def)
  ultimately show ?thesis using example_cycle_1 example_cycle_3 by simp
qed

end
